theory Spec2Isabelle
  imports Complex_Main "HOL-Library.Sublist" "HOL-Library.Code_Target_Numeral"
begin

text \<open>
  A model of \<open>app.js\<close>, the page script of the review sentiment analyzer: the functions
  \<open>getRandomReview\<close>, \<open>analyzeSentiment\<close>, \<open>collectMetadata\<close>, \<open>showError\<close> and
  \<open>logToGoogleSheets\<close>, over the JavaScript values they compute with. Thrown errors are
  values (\<open>Inl\<close>), the globals a function reads are its arguments, and the handler that
  writes the page returns the page. The inference pipeline, the browser, the clock, the
  random source and the network are inputs.
\<close>

section \<open>JavaScript values used by app.js\<close>

subsection \<open>Numbers\<close>

text \<open>
  A JavaScript number is an IEEE 754 binary64 value. \<open>Finite q\<close> stands for the finite
  value whose exact rational value is \<open>q\<close> (the two zeros are not told apart: no operation
  below depends on the sign of zero). Only the rationals that are binary64 values are
  JavaScript numbers; \<open>binary64\<close> rounds any rational to the nearest one.
\<close>

datatype number = Finite rat | PosInfinity | NegInfinity | NaN

definition pow2 :: "int \<Rightarrow> rat" where
  "pow2 e = (if 0 \<le> e then 2 ^ nat e else 1 / 2 ^ nat (- e))"

text \<open>The number of binary digits of a natural number.\<close>

fun bit_length :: "nat \<Rightarrow> nat" where
  "bit_length n = (if n = 0 then 0 else Suc (bit_length (n div 2)))"

declare bit_length.simps [simp del]

text \<open>The integer \<open>e\<close> with \<open>2 ^ e \<le> a < 2 ^ (e + 1)\<close>, for \<open>a > 0\<close>.\<close>

definition floor_log2 :: "rat \<Rightarrow> int" where
  "floor_log2 a =
     (if 1 \<le> a then int (bit_length (nat \<lfloor>a\<rfloor>)) - 1
      else - int (bit_length (nat (\<lceil>1 / a\<rceil> - 1))))"

definition round_half_even :: "rat \<Rightarrow> int" where
  "round_half_even x =
     (let n = \<lfloor>x\<rfloor>; d = x - of_int n
      in if d < 1 / 2 then n else if 1 / 2 < d then n + 1 else if even n then n else n + 1)"

text \<open>
  Rounding to binary64 (roundTiesToEven): 53 significant bits, the exponent of the last
  place not below \<open>-1074\<close> (gradual underflow), overflow to an infinity.
\<close>

definition binary64 :: "rat \<Rightarrow> number" where
  "binary64 a =
     (if a = 0 then Finite 0
      else let e = max (floor_log2 \<bar>a\<bar> - 52) (- 1074);
               r = of_int (round_half_even (a / pow2 e)) * pow2 e
           in if 2 ^ 1024 \<le> r then PosInfinity
              else if r \<le> - (2 ^ 1024) then NegInfinity
              else Finite r)"

text \<open>The product \<open>a * b\<close> of two numbers.\<close>

fun num_mul :: "number \<Rightarrow> number \<Rightarrow> number" where
  "num_mul (Finite a) (Finite b) = binary64 (a * b)"
| "num_mul NaN _ = NaN"
| "num_mul _ NaN = NaN"
| "num_mul (Finite a) PosInfinity =
     (if a = 0 then NaN else if 0 < a then PosInfinity else NegInfinity)"
| "num_mul (Finite a) NegInfinity =
     (if a = 0 then NaN else if 0 < a then NegInfinity else PosInfinity)"
| "num_mul PosInfinity (Finite b) =
     (if b = 0 then NaN else if 0 < b then PosInfinity else NegInfinity)"
| "num_mul NegInfinity (Finite b) =
     (if b = 0 then NaN else if 0 < b then NegInfinity else PosInfinity)"
| "num_mul PosInfinity PosInfinity = PosInfinity"
| "num_mul PosInfinity NegInfinity = NegInfinity"
| "num_mul NegInfinity PosInfinity = NegInfinity"
| "num_mul NegInfinity NegInfinity = PosInfinity"

text \<open>The comparison \<open>a > b\<close>: false whenever an operand is NaN.\<close>

fun num_gt :: "number \<Rightarrow> number \<Rightarrow> bool" where
  "num_gt (Finite a) (Finite b) = (b < a)"
| "num_gt NaN _ = False"
| "num_gt _ NaN = False"
| "num_gt PosInfinity b = (b \<noteq> PosInfinity)"
| "num_gt NegInfinity _ = False"
| "num_gt (Finite a) PosInfinity = False"
| "num_gt (Finite a) NegInfinity = True"

text \<open>\<open>Math.floor\<close>.\<close>

fun Math_floor :: "number \<Rightarrow> number" where
  "Math_floor (Finite a) = Finite (of_int \<lfloor>a\<rfloor>)"
| "Math_floor v = v"

text \<open>
  Reading \<open>xs[i]\<close> with a number as the index: \<open>None\<close> is JavaScript's \<open>undefined\<close>, the
  value of every read outside \<open>0 .. xs.length - 1\<close>.
\<close>

fun array_get :: "'a list \<Rightarrow> number \<Rightarrow> 'a option" where
  "array_get xs (Finite i) =
     (if 0 \<le> i \<and> of_int \<lfloor>i\<rfloor> = i \<and> nat \<lfloor>i\<rfloor> < length xs then Some (xs ! nat \<lfloor>i\<rfloor>) else None)"
| "array_get xs _ = None"

subsection \<open>Numbers as strings\<close>

definition digit_char :: "nat \<Rightarrow> char" where
  "digit_char d = char_of (48 + d)"

text \<open>The decimal digits of a natural number, \<open>''0''\<close> for zero.\<close>

fun digits_of :: "nat \<Rightarrow> string" where
  "digits_of n = (if n < 10 then [digit_char n] else digits_of (n div 10) @ [digit_char (n mod 10)])"

declare digits_of.simps [simp del]

text \<open>
  \<open>Number::toString\<close> for a finite value \<open>x \<ge> 10 ^ 21\<close>. ECMAScript takes integers \<open>n\<close>,
  \<open>k\<close>, \<open>s\<close> with \<open>k \<ge> 1\<close> and \<open>10 ^ (k - 1) \<le> s < 10 ^ k\<close> such that the number value of
  \<open>s * 10 ^ (n - k)\<close> is \<open>x\<close>, with \<open>k\<close> as small as possible and then \<open>s * 10 ^ (n - k)\<close>
  as close to \<open>x\<close> as possible, and writes the digits of \<open>s\<close> in exponent notation.
  Seventeen digits are enough for every binary64 value, and for given \<open>n\<close> and \<open>k\<close> only
  the two integers around \<open>x / 10 ^ (n - k)\<close> can be closest, so the search is finite
  (it finds nothing only for a rational that is not a binary64 value).
\<close>

definition toString_digits :: "rat \<Rightarrow> nat \<times> nat \<times> nat \<Rightarrow> bool" where
  "toString_digits x nks =
     (case nks of (n, k, s) \<Rightarrow>
        1 \<le> k \<and> 10 ^ (k - 1) \<le> s \<and> s < 10 ^ k \<and> k \<le> n \<and>
        binary64 (of_nat s * 10 ^ (n - k)) = Finite x)"

definition toString_error :: "rat \<Rightarrow> nat \<times> nat \<times> nat \<Rightarrow> rat" where
  "toString_error x nks = (case nks of (n, k, s) \<Rightarrow> \<bar>of_nat s * 10 ^ (n - k) - x\<bar>)"

definition toString_candidates :: "rat \<Rightarrow> nat \<Rightarrow> (nat \<times> nat \<times> nat) list" where
  "toString_candidates x k =
     (let len = length (digits_of (nat \<lfloor>x\<rfloor>));
          around = (\<lambda>n. let s = nat \<lfloor>x / 10 ^ (n - k)\<rfloor> in [(n, k, s), (n, k, s + 1)])
      in filter (toString_digits x) (around len @ around (len + 1)))"

fun closest :: "rat \<Rightarrow> nat \<times> nat \<times> nat \<Rightarrow> (nat \<times> nat \<times> nat) list \<Rightarrow> nat \<times> nat \<times> nat" where
  "closest x best [] = best"
| "closest x best (c # cs) =
     closest x (if toString_error x c < toString_error x best then c else best) cs"

definition Number_toString :: "rat \<Rightarrow> string" where
  "Number_toString x =
     (case concat (map (toString_candidates x) [1 ..< 18]) of
        [] \<Rightarrow> digits_of (nat \<lfloor>x\<rfloor>)
      | c # cs \<Rightarrow>
          (case closest x c (toString_candidates x (fst (snd c))) of (n, k, s) \<Rightarrow>
             (if k = 1 then digits_of s
              else take 1 (digits_of s) @ ''.'' @ drop 1 (digits_of s))
             @ ''e+'' @ digits_of (n - 1)))"

text \<open>
  \<open>Number.prototype.toFixed(f)\<close>: the integer \<open>n\<close> for which \<open>n / 10 ^ f\<close> is closest to
  the value (the larger one of two), written with \<open>f\<close> digits after the point; the sign in
  front of a negative value; \<open>ToString\<close> for a value that is not finite or is \<open>10 ^ 21\<close>
  or more. The code calls it with \<open>f = 1\<close>.
\<close>

definition toFixed :: "nat \<Rightarrow> number \<Rightarrow> string" where
  "toFixed f v =
     (case v of
        NaN \<Rightarrow> ''NaN''
      | PosInfinity \<Rightarrow> ''Infinity''
      | NegInfinity \<Rightarrow> ''-Infinity''
      | Finite x0 \<Rightarrow>
          let s = (if x0 < 0 then ''-'' else '''');
              x = \<bar>x0\<bar>
          in if 10 ^ 21 \<le> x then s @ Number_toString x
             else
               let n = nat \<lfloor>x * 10 ^ f + 1 / 2\<rfloor>;
                   m = digits_of n;
                   k = length m;
                   m = (if f \<noteq> 0 \<and> k \<le> f then replicate (f + 1 - k) CHR ''0'' @ m else m);
                   k = length m
               in s @ (if f \<noteq> 0 then take (k - f) m @ ''.'' @ drop (k - f) m else m))"

subsection \<open>Strings\<close>

text \<open>
  A JavaScript string is a sequence of UTF-16 code units. The strings that enter the
  program (the review texts, the labels of the pipeline) are modelled over the code units
  below 256: a \<open>char\<close> is the code unit U+0000 to U+00FF of its number (\<open>of_char\<close>).
  Upper-casing leads out of that range, at U+00B5 and U+00FF, so an upper-cased string is
  a list of code units as numbers; \<open>code_units\<close> reads a string as such a list.
\<close>

definition code_units :: "string \<Rightarrow> nat list" where
  "code_units s = map of_char s"

text \<open>
  \<open>String.prototype.toUpperCase\<close> on the code units below 256: the letters \<open>a\<close> to \<open>z\<close>
  (97 to 122) and U+00E0 to U+00FE except the division sign U+00F7 move down by 32, the
  micro sign U+00B5 becomes U+039C, the sharp s U+00DF becomes \<open>SS\<close>, U+00FF becomes
  U+0178, and every other code unit stays.
\<close>

definition toUpperCase_char :: "char \<Rightarrow> nat list" where
  "toUpperCase_char c =
     (let n = of_char c :: nat
      in if 97 \<le> n \<and> n \<le> 122 then [n - 32]
         else if n = 181 then [924]
         else if n = 223 then [83, 83]
         else if 224 \<le> n \<and> n \<le> 254 \<and> n \<noteq> 247 then [n - 32]
         else if n = 255 then [376]
         else [n])"

definition toUpperCase :: "string \<Rightarrow> nat list" where
  "toUpperCase s = concat (map toUpperCase_char s)"

text \<open>\<open>includes_str\<close> (the string method \<open>includes\<close>) is the test for a contiguous substring.\<close>

fun includes_str :: "'a list \<Rightarrow> 'a list \<Rightarrow> bool" where
  "includes_str [] t = (t = [])"
| "includes_str (c # s) t = (prefix t (c # s) \<or> includes_str s t)"

text \<open>
  \<open>String.prototype.trim\<close> removes the white space and line terminators at both ends;
  below 256 these are tab, line feed, vertical tab, form feed, carriage return, space and
  the no-break space U+00A0.
\<close>

definition isWhiteSpace :: "char \<Rightarrow> bool" where
  "isWhiteSpace c = (of_char c \<in> {9, 10, 11, 12, 13, 32, 160 :: nat})"

definition trim :: "string \<Rightarrow> string" where
  "trim s = rev (dropWhile isWhiteSpace (rev (dropWhile isWhiteSpace s)))"

section \<open>app.js\<close>

subsection \<open>Data\<close>

text \<open>A thrown \<open>new Error(message)\<close>.\<close>

datatype error = Error (message: string)

text \<open>
  One entry of the pipeline's output: \<open>{label, score}\<close>. The type of the label's code
  units is a parameter \<open>'c\<close> of the records that hold a label: \<open>char\<close> for the labels the
  pipeline produces, numbers for the upper-cased label that \<open>analyzeSentiment\<close> returns.
\<close>

record 'c RawClassification =
  label :: "'c list"
  score :: number

text \<open>The object \<open>analyzeSentiment\<close> returns: \<open>{label, score, sentiment, confidence}\<close>.\<close>

record 'c SentimentResult = "'c RawClassification" +
  sentiment :: string
  confidence :: string

text \<open>\<open>currentAnalysis\<close>: \<open>{review, ...analysis, timestamp}\<close>.\<close>

record 'c Analysis = "'c SentimentResult" +
  review :: string
  timestamp :: string

text \<open>
  What \<open>await sentimentPipeline(text)\<close> gives: the promise is rejected, or it resolves to
  a value that is not an array, or to an array of classifications.
\<close>

datatype engine_result = Rejected string | NotArray | Array "char RawClassification list"

subsection \<open>getRandomReview\<close>

text \<open>
  \<open>reviews\<close> is the global list of loaded reviews and \<open>random\<close> the value \<open>Math.random()\<close>
  returns, a binary64 value in \<open>[0, 1)\<close>. The result \<open>Inr None\<close> is \<open>undefined\<close>.
\<close>

definition getRandomReview :: "string list \<Rightarrow> number \<Rightarrow> error + string option" where
  "getRandomReview reviews random =
     (if length reviews = 0 then Inl (Error ''No reviews available'')
      else let randomIndex = Math_floor (num_mul random (Finite (of_nat (length reviews))))
           in Inr (array_get reviews randomIndex))"

subsection \<open>analyzeSentiment\<close>

text \<open>
  \<open>sentimentPipeline\<close> is the global of that name: \<open>None\<close> for \<open>null\<close> (the model is not
  loaded), otherwise the loaded pipeline, a function of the text.
\<close>

definition analyzeSentiment ::
  "(string \<Rightarrow> engine_result) option \<Rightarrow> string \<Rightarrow> error + nat SentimentResult" where
  "analyzeSentiment sentimentPipeline text =
     (case sentimentPipeline of
        None \<Rightarrow> Inl (Error ''Sentiment model not loaded'')
      | Some pipeline \<Rightarrow>
          if text = [] \<or> length (trim text) = 0 then Inl (Error ''Review text is empty'')
          else
            (case pipeline text of
               Rejected e \<Rightarrow> Inl (Error e)
             | NotArray \<Rightarrow> Inl (Error ''Invalid analysis results'')
             | Array results \<Rightarrow>
                 if length results = 0 then Inl (Error ''Invalid analysis results'')
                 else
                   let primaryResult = results ! 0;
                       label = toUpperCase (RawClassification.label primaryResult);
                       score = RawClassification.score primaryResult;
                       sentiment =
                         (if includes_str label (code_units ''POSITIVE'')
                             \<and> num_gt score (Finite (1 / 2))
                          then ''positive''
                          else if includes_str label (code_units ''NEGATIVE'')
                             \<and> num_gt score (Finite (1 / 2))
                          then ''negative''
                          else ''neutral'')
                   in Inr \<lparr>label = label, score = score, sentiment = sentiment,
                            confidence = toFixed 1 (num_mul score (Finite 100))\<rparr>))"

subsection \<open>collectMetadata and logToGoogleSheets\<close>

definition MODEL_NAME :: string where
  "MODEL_NAME = ''Xenova/distilbert-base-uncased-finetuned-sst-2-english''"

text \<open>
  What the browser provides: \<open>navigator\<close>, \<open>window.screen\<close>, and the two readings of the
  clock (\<open>new Date().toISOString()\<close>) that \<open>collectMetadata\<close> makes.
\<close>

record environment =
  navigator_userAgent :: string
  navigator_language :: string
  navigator_platform :: string
  screen_width :: nat
  screen_height :: nat
  Date_timestamp :: string
  Date_analysisTime :: string

text \<open>
  The object \<open>collectMetadata\<close> returns. Its field \<open>timestamp\<close> is \<open>meta_timestamp\<close> here,
  the name \<open>timestamp\<close> being the field of \<open>currentAnalysis\<close>.
\<close>

record metadata =
  userAgent :: string
  language :: string
  platform :: string
  screenResolution :: string
  model :: string
  meta_timestamp :: string
  reviewCount :: nat
  analysisTime :: string

definition collectMetadata :: "environment \<Rightarrow> string list \<Rightarrow> metadata" where
  "collectMetadata env reviews =
     \<lparr>userAgent = navigator_userAgent env,
      language = navigator_language env,
      platform = navigator_platform env,
      screenResolution = digits_of (screen_width env) @ ''x'' @ digits_of (screen_height env),
      model = MODEL_NAME,
      meta_timestamp = Date_timestamp env,
      reviewCount = length reviews,
      analysisTime = Date_analysisTime env\<rparr>"

text \<open>
  The payload. \<open>meta\<close> is the object \<open>{...collectMetadata(), analysis: {...}}\<close> that the code
  hands to \<open>JSON.stringify\<close>, and the body of the request is the payload that it hands to
  \<open>JSON.stringify\<close>: the serialisation itself is the platform's. The payload's fields
  \<open>review\<close> and \<open>sentiment\<close> are \<open>log_review\<close> and \<open>log_sentiment\<close> here.
\<close>

record meta_object = metadata +
  analysis :: "char SentimentResult"

record payload =
  ts_iso :: string
  log_review :: string
  log_sentiment :: string
  meta :: meta_object

text \<open>
  A call of \<open>fetch\<close> (its option \<open>method\<close> is \<open>http_method\<close> here, its header
  \<open>Content-Type\<close> is \<open>content_type\<close>), and how its promise settles.
\<close>

record request =
  url :: string
  http_method :: string
  mode :: string
  content_type :: string
  body :: payload

datatype fetch_result = Fulfilled | Failed string

text \<open>
  The state of the page that the handler reads and writes: the globals \<open>reviews\<close> and
  \<open>currentAnalysis\<close> (\<open>None\<close> for \<open>null\<close>; its label over the code units below 256,
  like the other strings of the page), the error banner, the log button, and the
  requests handed to \<open>fetch\<close> so far. The timers (\<open>setTimeout\<close>) that later hide the
  banner and reset the button, and the console, are not part of it.
\<close>

record page =
  reviews :: "string list"
  currentAnalysis :: "char Analysis option"
  errorMessage_textContent :: string
  errorBox_show :: bool
  logBtn_disabled :: bool
  logBtn_innerHTML :: string
  logBtn_style_background :: string
  logBtn_style_color :: string
  requests :: "request list"

definition showError :: "string \<Rightarrow> page \<Rightarrow> page" where
  "showError msg s = s\<lparr>errorMessage_textContent := msg, errorBox_show := True\<rparr>"

text \<open>
  \<open>GOOGLE_SCRIPT_URL\<close> is the constant of the configuration, which the source leaves at
  its placeholder. The result is the page when the handler has run to its end, \<open>net\<close>
  being how the promise of \<open>fetch\<close> settles.
\<close>

definition logToGoogleSheets :: "string \<Rightarrow> environment \<Rightarrow> fetch_result \<Rightarrow> page \<Rightarrow> page" where
  \<open>logToGoogleSheets GOOGLE_SCRIPT_URL env net s =
     (case currentAnalysis s of
        None \<Rightarrow> showError ''No analysis to log'' s
      | Some current \<Rightarrow>
          if GOOGLE_SCRIPT_URL = [] \<or> GOOGLE_SCRIPT_URL = ''YOUR_GOOGLE_APPS_SCRIPT_WEB_APP_URL''
          then showError
                 ''Google Sheets integration not configured. Please set your Google Script URL.'' s
          else
            let payload =
                  \<lparr>ts_iso = timestamp current,
                   log_review = review current,
                   log_sentiment = label current @ '' ('' @ confidence current @ ''%)'',
                   meta = metadata.extend (collectMetadata env (reviews s))
                            (meta_object.fields
                               \<lparr>label = label current, score = score current,
                                sentiment = sentiment current,
                                confidence = confidence current\<rparr>)\<rparr>;
                s1 = s\<lparr>logBtn_disabled := True,
                       logBtn_innerHTML := ''<i class="fas fa-spinner fa-spin"></i> Logging...'',
                       requests := requests s @
                         [\<lparr>url = GOOGLE_SCRIPT_URL, http_method = ''POST'', mode = ''no-cors'',
                           content_type = ''application/json'', body = payload\<rparr>]\<rparr>
            in (case net of
                  Fulfilled \<Rightarrow>
                    s1\<lparr>logBtn_innerHTML := ''<i class="fas fa-check"></i> Logged Successfully'',
                       logBtn_style_background := ''var(--positive)'',
                       logBtn_style_color := ''white''\<rparr>
                | Failed e \<Rightarrow>
                    (showError (''Failed to log to Google Sheets: '' @ e) s1)
                      \<lparr>logBtn_disabled := False,
                       logBtn_innerHTML :=
                         ''<i class="fas fa-cloud-upload-alt"></i> Log to Google Sheets''\<rparr>))\<close>

section \<open>The vocabulary of the specification\<close>

text \<open>
  The specification names the errors; the code tells them apart by their messages.
\<close>

definition EmptyDataset :: error where
  "EmptyDataset = Error ''No reviews available''"

definition EngineNotReady :: error where
  "EngineNotReady = Error ''Sentiment model not loaded''"

definition InvalidInput :: error where
  "InvalidInput = Error ''Review text is empty''"

definition InvalidEngineOutput :: error where
  "InvalidEngineOutput = Error ''Invalid analysis results''"

definition NoAnalysisAvailable :: error where
  "NoAnalysisAvailable = Error ''No analysis to log''"

text \<open>
  A label contains a word case-insensitively when some window of the label agrees with
  the word letter by letter, upper and lower case not told apart.
\<close>

definition toLowerCase_char :: "char \<Rightarrow> char" where
  "toLowerCase_char c =
     (let n = of_char c :: nat in if 65 \<le> n \<and> n \<le> 90 then char_of (n + 32) else c)"

definition same_letter :: "char \<Rightarrow> char \<Rightarrow> bool" where
  "same_letter a b = (toLowerCase_char a = toLowerCase_char b)"

fun contains_ignoring_case :: "string \<Rightarrow> string \<Rightarrow> bool" where
  "contains_ignoring_case [] w = (w = [])"
| "contains_ignoring_case (c # s) w =
     (list_all2 same_letter (take (length w) (c # s)) w \<or> contains_ignoring_case s w)"

text \<open>
  The lower-case letters below 256, the code units that have an upper-case form: \<open>a\<close> to
  \<open>z\<close>, the micro sign, and U+00DF to U+00FF except the division sign.
\<close>

definition lower_case_letter :: "char \<Rightarrow> bool" where
  "lower_case_letter c =
     (let n = of_char c :: nat
      in (97 \<le> n \<and> n \<le> 122) \<or> n = 181 \<or> (223 \<le> n \<and> n \<noteq> 247))"

text \<open>
  The words looked for are lower-case words of the letters \<open>a\<close> to \<open>z\<close> in which no \<open>s\<close>
  is the last letter or stands before another \<open>s\<close>; \<open>upper_word\<close> is such a word in upper
  case, as code units.
\<close>

fun plain_word :: "string \<Rightarrow> bool" where
  "plain_word [] = True"
| "plain_word (c # w) =
     (97 \<le> (of_char c :: nat) \<and> (of_char c :: nat) \<le> 122 \<and> plain_word w
      \<and> ((of_char c :: nat) \<noteq> 115 \<or> (w \<noteq> [] \<and> (of_char (hd w) :: nat) \<noteq> 115)))"

definition upper_word :: "string \<Rightarrow> nat list" where
  "upper_word w = map (\<lambda>c. of_char c - 32) w"

text \<open>
  The value of a decimal numeral \<open>digits.digits\<close>, and the number of its digits after
  the point.
\<close>

definition digit_value :: "char \<Rightarrow> nat option" where
  "digit_value c =
     (let n = of_char c :: nat in if 48 \<le> n \<and> n \<le> 57 then Some (n - 48) else None)"

fun nat_of_digits :: "nat \<Rightarrow> string \<Rightarrow> nat option" where
  "nat_of_digits acc [] = Some acc"
| "nat_of_digits acc (c # cs) =
     (case digit_value c of None \<Rightarrow> None | Some d \<Rightarrow> nat_of_digits (10 * acc + d) cs)"

definition integer_part :: "string \<Rightarrow> string" where
  "integer_part str = takeWhile (\<lambda>c. c \<noteq> CHR ''.'') str"

definition fraction_part :: "string \<Rightarrow> string" where
  "fraction_part str = drop 1 (dropWhile (\<lambda>c. c \<noteq> CHR ''.'') str)"

definition decimal_value :: "string \<Rightarrow> rat option" where
  "decimal_value str =
     (if integer_part str = [] then None
      else case (nat_of_digits 0 (integer_part str), nat_of_digits 0 (fraction_part str)) of
             (Some a, Some b) \<Rightarrow> Some (of_nat a + of_nat b / 10 ^ length (fraction_part str))
           | _ \<Rightarrow> None)"

section \<open>Scenarios\<close>

text \<open>
  The values the examples below run on: a pipeline that resolves to the same output for
  every text, a browser, and pages before and after a first analysis (of a review that
  the pipeline scores \<open>0.952\<close>, the binary64 value nearest to it).
\<close>

definition engine_returning :: "engine_result \<Rightarrow> string \<Rightarrow> engine_result" where
  "engine_returning r text = r"

definition example_environment :: environment where
  "example_environment =
     \<lparr>navigator_userAgent = ''Mozilla/5.0'', navigator_language = ''en-US'',
      navigator_platform = ''Linux x86_64'', screen_width = 1920, screen_height = 1080,
      Date_timestamp = ''2026-02-06T10:00:05.000Z'',
      Date_analysisTime = ''2026-02-06T10:00:05.001Z''\<rparr>"

definition fresh_page :: page where
  "fresh_page =
     \<lparr>reviews = [''Great product!'', ''Terrible experience.''], currentAnalysis = None,
      errorMessage_textContent = [], errorBox_show = False, logBtn_disabled = True,
      logBtn_innerHTML = [], logBtn_style_background = [], logBtn_style_color = [],
      requests = []\<rparr>"

definition example_analysis :: "char Analysis" where
  "example_analysis =
     \<lparr>label = ''POSITIVE'', score = Finite (535928355657089 / 562949953421312),
      sentiment = ''positive'', confidence = ''95.2'', review = ''Great product!'',
      timestamp = ''2026-02-06T10:00:00.000Z''\<rparr>"

definition analysed_page :: page where
  "analysed_page = fresh_page\<lparr>currentAnalysis := Some example_analysis, logBtn_disabled := False\<rparr>"

section \<open>Auxiliary facts\<close>

subsection \<open>Evaluating floors of fractions\<close>

lemma floor_rat_numeral_div [simp]:
  "\<lfloor>(numeral a / numeral b :: rat)\<rfloor> = numeral a div numeral b"
  using floor_divide_of_int_eq [of "numeral a" "numeral b", where ?'a = rat] by simp

lemma floor_rat_neg_numeral_div [simp]:
  "\<lfloor>- (numeral a / numeral b :: rat)\<rfloor> = - numeral a div numeral b"
  using floor_divide_of_int_eq [of "- numeral a" "numeral b", where ?'a = rat] by simp

subsection \<open>White space\<close>

lemma dropWhile_all_iff: "(\<forall>x\<in>set (dropWhile P xs). P x) \<longleftrightarrow> (\<forall>x\<in>set xs. P x)"
proof
  assume all: "\<forall>x\<in>set (dropWhile P xs). P x"
  have "dropWhile P xs = []"
  proof (rule ccontr)
    assume ne: "dropWhile P xs \<noteq> []"
    then have "\<not> P (hd (dropWhile P xs))" by (rule hd_dropWhile)
    moreover from ne have "hd (dropWhile P xs) \<in> set (dropWhile P xs)" by simp
    ultimately show False using all by blast
  qed
  then show "\<forall>x\<in>set xs. P x" by (simp add: dropWhile_eq_Nil_conv)
next
  assume "\<forall>x\<in>set xs. P x"
  then show "\<forall>x\<in>set (dropWhile P xs). P x"
    by (meson set_dropWhileD)
qed

lemma trim_Nil_iff: "trim s = [] \<longleftrightarrow> (\<forall>c\<in>set s. isWhiteSpace c)"
  by (simp add: trim_def dropWhile_eq_Nil_conv dropWhile_all_iff)

lemma blank_iff: "(s = [] \<or> length (trim s) = 0) \<longleftrightarrow> (\<forall>c\<in>set s. isWhiteSpace c)"
  using trim_Nil_iff [of s] by auto

lemma nonblank_Great: "\<exists>c\<in>set ''Great product!''. \<not> isWhiteSpace c"
  by (simp add: isWhiteSpace_def)

subsection \<open>Upper case and containment\<close>

lemma case_fold_arith:
  fixes n m :: nat
  assumes "97 \<le> m" and "m \<le> 122" and "n \<noteq> 223"
  shows "(if 97 \<le> n \<and> n \<le> 122 then [n - 32]
          else if n = 181 then [924]
          else if n = 223 then [83, 83]
          else if 224 \<le> n \<and> n \<le> 254 \<and> n \<noteq> 247 then [n - 32]
          else if n = 255 then [376]
          else [n]) = [u]
        \<Longrightarrow> (u = m - 32) = ((if 65 \<le> n \<and> n \<le> 90 then n + 32 else n) = m)"
  using assms by (auto split: if_splits)

lemma of_char_toLowerCase_char:
  "(of_char (toLowerCase_char c) :: nat) =
     (if 65 \<le> (of_char c :: nat) \<and> (of_char c :: nat) \<le> 90 then of_char c + 32 else of_char c)"
  by (simp add: toLowerCase_char_def Let_def)

lemma same_letter_iff:
  assumes "97 \<le> (of_char c :: nat)" and "(of_char c :: nat) \<le> 122"
  shows "same_letter d c \<longleftrightarrow>
    (if 65 \<le> (of_char d :: nat) \<and> (of_char d :: nat) \<le> 90 then of_char d + 32 else of_char d)
      = (of_char c :: nat)"
proof -
  have "same_letter d c \<longleftrightarrow> (of_char (toLowerCase_char d) :: nat) = of_char (toLowerCase_char c)"
    unfolding same_letter_def by simp
  also have "(of_char (toLowerCase_char c) :: nat) = of_char c"
    using assms by (simp add: of_char_toLowerCase_char)
  finally show ?thesis by (simp only: of_char_toLowerCase_char)
qed

lemma toUpperCase_char_single:
  assumes "(of_char d :: nat) \<noteq> 223"
  obtains u where "toUpperCase_char d = [u]"
    and "\<And>c. 97 \<le> (of_char c :: nat) \<Longrightarrow> (of_char c :: nat) \<le> 122
           \<Longrightarrow> (u = of_char c - 32) = same_letter d c"
proof -
  from assms have "\<exists>u. toUpperCase_char d = [u]"
    by (simp add: toUpperCase_char_def Let_def)
  then obtain u where u: "toUpperCase_char d = [u]" ..
  have "(u = of_char c - 32) = same_letter d c"
    if "97 \<le> (of_char c :: nat)" "(of_char c :: nat) \<le> 122" for c
    using case_fold_arith [OF that assms, of u] u same_letter_iff [OF that, of d]
    by (simp add: toUpperCase_char_def Let_def)
  with u show ?thesis using that by blast
qed

lemma toUpperCase_char_sharp_s:
  "(of_char d :: nat) = 223 \<Longrightarrow> toUpperCase_char d = [83, 83]"
  by (simp add: toUpperCase_char_def)

lemma not_same_letter_sharp_s:
  assumes "(of_char d :: nat) = 223" and "97 \<le> (of_char c :: nat)" and "(of_char c :: nat) \<le> 122"
  shows "\<not> same_letter d c"
  using assms same_letter_iff [OF assms(2,3), of d] by simp

lemma toUpperCase_Cons: "toUpperCase (d # L) = toUpperCase_char d @ toUpperCase L"
  by (simp add: toUpperCase_def)

lemma prefix_upper_word:
  assumes "plain_word w"
  shows "prefix (upper_word w) (toUpperCase L) \<longleftrightarrow> list_all2 same_letter (take (length w) L) w"
  using assms
proof (induction w arbitrary: L)
  case Nil
  show ?case by (simp add: upper_word_def)
next
  case (Cons c w)
  from Cons.prems have c: "97 \<le> (of_char c :: nat)" "(of_char c :: nat) \<le> 122"
    and w: "plain_word w"
    and s: "(of_char c :: nat) \<noteq> 115 \<or> (w \<noteq> [] \<and> (of_char (hd w) :: nat) \<noteq> 115)"
    by simp_all
  have up: "upper_word (c # w) = (of_char c - 32) # upper_word w"
    by (simp add: upper_word_def)
  show ?case
  proof (cases L)
    case Nil
    then show ?thesis by (simp add: up toUpperCase_def)
  next
    case (Cons d L')
    show ?thesis
    proof (cases "(of_char d :: nat) = 223")
      case True
      have "\<not> prefix (upper_word (c # w)) (83 # 83 # toUpperCase L')"
      proof (cases "(of_char c :: nat) = 115")
        case False
        with c show ?thesis by (auto simp add: up)
      next
        case True
        with s obtain e w' where w': "w = e # w'" "(of_char e :: nat) \<noteq> 115"
          by (cases w) auto
        from w w' have "97 \<le> (of_char e :: nat)" by simp
        with w' show ?thesis by (auto simp add: up upper_word_def)
      qed
      with True Cons not_same_letter_sharp_s [OF True c] show ?thesis
        by (simp add: toUpperCase_Cons toUpperCase_char_sharp_s)
    next
      case False
      then obtain u where u: "toUpperCase_char d = [u]"
        and eq: "(u = of_char c - 32) = same_letter d c"
        using c by (elim toUpperCase_char_single) blast
      from Cons.IH [OF w, of L'] u eq Cons show ?thesis
        by (auto simp add: up toUpperCase_Cons)
    qed
  qed
qed

lemma includes_upper_word:
  assumes "plain_word w" and "w \<noteq> []" and "(of_char (hd w) :: nat) \<noteq> 115"
  shows "includes_str (toUpperCase L) (upper_word w) \<longleftrightarrow> contains_ignoring_case L w"
proof (induction L)
  case Nil
  from assms(2) show ?case by (simp add: toUpperCase_def upper_word_def)
next
  case (Cons d L)
  from assms obtain c w' where w: "w = c # w'" by (cases w) auto
  with assms have c: "97 \<le> (of_char c :: nat)" "(of_char c :: nat) \<noteq> 115" by simp_all
  have up: "upper_word w = (of_char c - 32) # upper_word w'"
    by (simp add: upper_word_def w)
  note pre = prefix_upper_word [OF assms(1), of "d # L"]
  show ?case
  proof (cases "(of_char d :: nat) = 223")
    case True
    from c have "\<not> prefix (upper_word w) (83 # toUpperCase L)"
      by (auto simp add: up)
    with pre Cons.IH True show ?thesis
      by (simp add: toUpperCase_Cons toUpperCase_char_sharp_s)
  next
    case False
    then obtain u where u: "toUpperCase_char d = [u]"
      by (elim toUpperCase_char_single)
    with pre Cons.IH show ?thesis
      by (simp add: toUpperCase_Cons)
  qed
qed

lemma includes_POSITIVE:
  "includes_str (toUpperCase s) (code_units ''POSITIVE'') \<longleftrightarrow> contains_ignoring_case s ''positive''"
proof -
  have "upper_word ''positive'' = code_units ''POSITIVE''"
    by (simp add: upper_word_def code_units_def)
  moreover have "plain_word ''positive''" by simp
  ultimately show ?thesis
    using includes_upper_word [of "''positive''" s] by simp
qed

lemma includes_NEGATIVE:
  "includes_str (toUpperCase s) (code_units ''NEGATIVE'') \<longleftrightarrow> contains_ignoring_case s ''negative''"
proof -
  have "upper_word ''negative'' = code_units ''NEGATIVE''"
    by (simp add: upper_word_def code_units_def)
  moreover have "plain_word ''negative''" by simp
  ultimately show ?thesis
    using includes_upper_word [of "''negative''" s] by simp
qed

lemma toUpperCase_char_unchanged:
  "\<not> lower_case_letter c \<Longrightarrow> toUpperCase_char c = [of_char c]"
  by (auto simp add: lower_case_letter_def toUpperCase_char_def Let_def)

lemma toUpperCase_char_changed:
  assumes "lower_case_letter c"
  shows "\<exists>u us. toUpperCase_char c = u # us \<and> u \<noteq> of_char c"
proof -
  have "(of_char c :: nat) \<le> 255"
    using nat_of_char_less_256 [of c] by linarith
  with assms show ?thesis
    by (auto simp add: lower_case_letter_def toUpperCase_char_def Let_def)
qed

lemma toUpperCase_fixed_iff:
  "toUpperCase s = code_units s \<longleftrightarrow> (\<forall>c\<in>set s. \<not> lower_case_letter c)"
proof (induction s)
  case Nil
  show ?case by (simp add: toUpperCase_def code_units_def)
next
  case (Cons c s)
  show ?case
  proof (cases "lower_case_letter c")
    case True
    from toUpperCase_char_changed [OF True] obtain u us
      where "toUpperCase_char c = u # us" "u \<noteq> of_char c" by blast
    with True show ?thesis
      by (auto simp add: toUpperCase_Cons code_units_def)
  next
    case False
    from toUpperCase_char_unchanged [OF False] Cons.IH False show ?thesis
      by (simp add: toUpperCase_Cons code_units_def)
  qed
qed

text \<open>\<open>includes_str\<close> is the test for a contiguous substring.\<close>

lemma includes_str_iff: "includes_str s t \<longleftrightarrow> (\<exists>ps ss. s = ps @ t @ ss)"
proof (induction s)
  case Nil
  show ?case by auto
next
  case (Cons c s)
  show ?case
  proof
    assume "includes_str (c # s) t"
    then consider "prefix t (c # s)" | "includes_str s t" by auto
    then show "\<exists>ps ss. c # s = ps @ t @ ss"
    proof cases
      case 1
      then obtain ss where "c # s = t @ ss" by (auto simp: prefix_def)
      then have "c # s = [] @ t @ ss" by simp
      then show ?thesis by blast
    next
      case 2
      with Cons.IH obtain ps ss where "s = ps @ t @ ss" by blast
      then have "c # s = (c # ps) @ t @ ss" by simp
      then show ?thesis by blast
    qed
  next
    assume "\<exists>ps ss. c # s = ps @ t @ ss"
    then obtain ps ss where eq: "c # s = ps @ t @ ss" by blast
    show "includes_str (c # s) t"
    proof (cases ps)
      case Nil
      with eq have "prefix t (c # s)" by (simp add: prefix_def)
      then show ?thesis by simp
    next
      case (Cons p ps')
      with eq have "s = ps' @ t @ ss" by simp
      with Cons.IH have "includes_str s t" by blast
      then show ?thesis by simp
    qed
  qed
qed

subsection \<open>Rounding to binary64\<close>

lemma bit_length_le: "n < 2 ^ k \<Longrightarrow> bit_length n \<le> k"
proof (induction k arbitrary: n)
  case 0
  then show ?case by (simp add: bit_length.simps)
next
  case (Suc k)
  show ?case
  proof (cases "n = 0")
    case True
    then show ?thesis by (simp add: bit_length.simps)
  next
    case False
    from Suc.prems have "n div 2 < 2 ^ k" by simp
    then have "bit_length (n div 2) \<le> k" by (rule Suc.IH)
    with False show ?thesis by (subst bit_length.simps) simp
  qed
qed

lemma floor_log2_le:
  assumes "0 < a" and "a < 2 ^ Suc k"
  shows "floor_log2 a \<le> int k"
proof (cases "1 \<le> a")
  case True
  from assms have "\<lfloor>a\<rfloor> < 2 ^ Suc k"
    by (metis floor_less_iff of_int_numeral of_int_power)
  with True have "nat \<lfloor>a\<rfloor> < 2 ^ Suc k"
    by (metis (no_types, opaque_lifting) nat_less_iff of_nat_numeral of_nat_power zero_le_floor
        order_trans zero_le_one)
  then have "bit_length (nat \<lfloor>a\<rfloor>) \<le> Suc k" by (rule bit_length_le)
  with True show ?thesis by (simp add: floor_log2_def)
next
  case False
  then show ?thesis by (simp add: floor_log2_def)
qed

lemma pow2_pos: "0 < pow2 e"
  by (simp add: pow2_def)

lemma pow2_le:
  assumes "e \<le> - int k"
  shows "pow2 e \<le> 1 / 2 ^ k"
proof (cases "0 \<le> e")
  case True
  with assms have "e = 0" "k = 0" by simp_all
  then show ?thesis by (simp add: pow2_def)
next
  case False
  with assms have "k \<le> nat (- e)" by simp
  then have "(2::rat) ^ k \<le> 2 ^ nat (- e)"
    by (simp add: power_increasing)
  then have "1 / (2::rat) ^ nat (- e) \<le> 1 / 2 ^ k"
    by (simp add: frac_le)
  with False show ?thesis by (simp add: pow2_def)
qed

lemma round_half_even_error: "\<bar>of_int (round_half_even x) - x\<bar> \<le> 1 / 2"
proof -
  have "of_int \<lfloor>x\<rfloor> \<le> x" "x < of_int \<lfloor>x\<rfloor> + 1" by linarith+
  then show ?thesis
    by (auto simp add: round_half_even_def Let_def abs_le_iff)
qed

lemma round_half_even_nonneg: "0 \<le> x \<Longrightarrow> 0 \<le> round_half_even x"
  by (auto simp add: round_half_even_def Let_def)

lemma bit_length_pos: "0 < n \<Longrightarrow> 0 < bit_length n"
  by (subst bit_length.simps) simp

lemma bit_length_bounds:
  assumes "0 < n"
  shows "2 ^ (bit_length n - 1) \<le> n \<and> n < 2 ^ bit_length n"
  using assms
proof (induction n rule: bit_length.induct)
  case (1 n)
  have eq: "bit_length n = Suc (bit_length (n div 2))"
    using "1.prems" by (subst bit_length.simps) simp
  show ?case
  proof (cases "n div 2 = 0")
    case True
    with "1.prems" have "n = 1" by (simp add: div_eq_0_iff) 
    then show ?thesis by (simp add: bit_length.simps)
  next
    case False
    then have half: "0 < n div 2" by simp
    with "1.IH" "1.prems" have IH: "2 ^ (bit_length (n div 2) - 1) \<le> n div 2"
      "n div 2 < 2 ^ bit_length (n div 2)"
      by simp_all
    from bit_length_pos [OF half] obtain b where b: "bit_length (n div 2) = Suc b"
      by (cases "bit_length (n div 2)") simp_all
    from IH have "2 * 2 ^ b \<le> n" "n < 2 * 2 ^ Suc b"
      unfolding b by simp_all
    then show ?thesis unfolding eq b by simp
  qed
qed


lemma rat_of_nat_power2_le: "2 ^ k \<le> m \<Longrightarrow> (2::rat) ^ k \<le> of_nat m"
proof -
  assume "2 ^ k \<le> m"
  then have "(of_nat (2 ^ k) :: rat) \<le> of_nat m" by (simp only: of_nat_le_iff)
  then show ?thesis by simp
qed

lemma rat_of_nat_less_power2: "m < 2 ^ k \<Longrightarrow> (of_nat m + 1 :: rat) \<le> 2 ^ k"
proof -
  assume "m < 2 ^ k"
  then have "Suc m \<le> 2 ^ k" by simp
  then have "(of_nat (Suc m) :: rat) \<le> of_nat (2 ^ k)" by (simp only: of_nat_le_iff)
  then show ?thesis by simp
qed

lemma floor_log2_correct:
  assumes "0 < a"
  shows "pow2 (floor_log2 a) \<le> a \<and> a < pow2 (floor_log2 a + 1)"
proof (cases "1 \<le> a")
  case True
  define m where "m = nat \<lfloor>a\<rfloor>"
  from True have "1 \<le> \<lfloor>a\<rfloor>" by (simp add: le_floor_iff)
  then have pos: "0 < m" and cast: "(of_nat m :: rat) = of_int \<lfloor>a\<rfloor>"
    unfolding m_def by simp_all
  have "of_int \<lfloor>a\<rfloor> \<le> a" "a < of_int \<lfloor>a\<rfloor> + 1" by linarith+
  then have m: "of_nat m \<le> a" "a < of_nat m + 1"
    unfolding cast by simp_all
  from bit_length_pos [OF pos] obtain b where b: "bit_length m = Suc b"
    by (cases "bit_length m") simp_all
  from bit_length_bounds [OF pos] have nat_bounds: "2 ^ b \<le> m" "m < 2 ^ Suc b"
    unfolding b by simp_all
  have "(2::rat) ^ b \<le> of_nat m" "(of_nat m + 1 :: rat) \<le> 2 ^ Suc b"
    using nat_bounds(1) rat_of_nat_power2_le apply blast
    using nat_bounds(2) rat_of_nat_less_power2 apply blast
    done
  with m have "(2::rat) ^ b \<le> a" "a < 2 ^ Suc b"
    by linarith+
  moreover have "floor_log2 a = int b"
    using True by (simp add: floor_log2_def m_def [symmetric] b)
  ultimately show ?thesis
    by (simp add: pow2_def nat_add_distrib)
next
  case False
  define k where "k = \<lceil>1 / a\<rceil> - 1"
  define m where "m = nat k"
  from False assms have "1 < 1 / a" by simp
  then have "1 < \<lceil>1 / a\<rceil>" by (simp add: less_ceiling_iff)
  then have k: "0 < k" unfolding k_def by linarith
  then have pos: "0 < m" and cast: "(of_nat m :: rat) = of_int k"
    unfolding m_def by simp_all
  have "of_int k < 1 / a" "1 / a \<le> of_int k + 1"
    unfolding k_def by linarith+
  then have m: "of_nat m < 1 / a" "1 / a \<le> of_nat m + 1"
    unfolding cast by simp_all
  from bit_length_pos [OF pos] obtain b where b: "bit_length m = Suc b"
    by (cases "bit_length m") simp_all
  from bit_length_bounds [OF pos] have nat_bounds: "2 ^ b \<le> m" "m < 2 ^ Suc b"
    unfolding b by simp_all
  have "(2::rat) ^ b \<le> of_nat m" "(of_nat m + 1 :: rat) \<le> 2 ^ Suc b"
    using nat_bounds(1) rat_of_nat_power2_le apply blast
    using nat_bounds(2) rat_of_nat_less_power2 apply blast
    done
  with m have bounds: "(2::rat) ^ b < 1 / a" "1 / a \<le> 2 ^ Suc b"
    by linarith+
  from bounds(1) assms have upper: "a < 1 / 2 ^ b"
    by (simp add: field_simps)
  from bounds(2) assms have lower: "1 / 2 ^ Suc b \<le> a"
    by (simp add: field_simps)
  have fl: "floor_log2 a = - int (Suc b)"
    using False by (simp add: floor_log2_def k_def [symmetric] m_def [symmetric] b)
  have p1: "pow2 (- int (Suc b)) = 1 / 2 ^ Suc b"
    by (simp add: pow2_def nat_add_distrib)
  have p2: "pow2 (- int (Suc b) + 1) = 1 / 2 ^ b"
    by (cases b) (simp_all add: pow2_def nat_add_distrib)
  from upper lower show ?thesis
    unfolding fl p1 p2 by (rule conjI [rotated])
qed


text \<open>
  A finite result of \<open>binary64\<close> is a multiple of the unit in the last place and differs
  from the argument by at most half of that unit.
\<close>

lemma binary64_nearest:
  assumes "binary64 a = Finite x" and "a \<noteq> 0"
  shows "\<exists>n. x = of_int n * pow2 (max (floor_log2 \<bar>a\<bar> - 52) (- 1074))
           \<and> \<bar>x - a\<bar> \<le> pow2 (max (floor_log2 \<bar>a\<bar> - 52) (- 1074)) / 2"
proof -
  define e where "e = max (floor_log2 \<bar>a\<bar> - 52) (- 1074)"
  define y where "y = a / pow2 e"
  have pos: "0 < pow2 e" by (simp add: pow2_def)
  from assms have x: "x = of_int (round_half_even y) * pow2 e"
    by (simp add: binary64_def Let_def e_def [symmetric] y_def [symmetric] split: if_splits)
  have a: "a = y * pow2 e"
    using pos by (simp add: y_def)
  have "x - a = (of_int (round_half_even y) - y) * pow2 e"
    by (simp add: x a algebra_simps)
  then have "\<bar>x - a\<bar> = \<bar>of_int (round_half_even y) - y\<bar> * pow2 e"
    using pos by (simp add: abs_mult)
  also have "\<dots> \<le> (1 / 2) * pow2 e"
    using round_half_even_error [of y] pos by (simp add: mult_right_mono)
  finally have "\<bar>x - a\<bar> \<le> pow2 e / 2" by simp
  with x show ?thesis unfolding e_def by blast
qed

lemma binary64_small:
  assumes "0 \<le> a" and "a \<le> 100"
  shows "\<exists>x. binary64 a = Finite x \<and> 0 \<le> x \<and> \<bar>x - a\<bar> \<le> 1 / 2 ^ 47"
proof (cases "a = 0")
  case True
  then show ?thesis by (simp add: binary64_def)
next
  case False
  define e where "e = max (floor_log2 \<bar>a\<bar> - 52) (- 1074)"
  define y where "y = a / pow2 e"
  define x where "x = of_int (round_half_even y) * pow2 e"
  from False assms have pos: "0 < a" by simp
  from assms have "a < 2 ^ Suc 6" by simp
  with pos have "floor_log2 a \<le> int 6" by (rule floor_log2_le)
  with pos have "e \<le> - int 46" by (simp add: e_def)
  then have small: "pow2 e \<le> 1 / 2 ^ 46" by (rule pow2_le)
  have a: "a = y * pow2 e"
    using pow2_pos [of e] by (simp add: y_def)
  from pos pow2_pos [of e] have "0 \<le> y" by (simp add: y_def)
  then have "0 \<le> round_half_even y" by (rule round_half_even_nonneg)
  with pow2_pos [of e] have nonneg: "0 \<le> x" by (simp add: x_def)
  have "x - a = (of_int (round_half_even y) - y) * pow2 e"
    by (simp add: x_def a algebra_simps)
  then have "\<bar>x - a\<bar> = \<bar>of_int (round_half_even y) - y\<bar> * pow2 e"
    using pow2_pos [of e] by (simp add: abs_mult)
  also have "\<dots> \<le> (1 / 2) * pow2 e"
    using round_half_even_error [of y] pow2_pos [of e] by (simp add: mult_right_mono)
  also have "\<dots> \<le> (1 / 2) * (1 / 2 ^ 46)"
    using small by simp
  finally have err: "\<bar>x - a\<bar> \<le> 1 / 2 ^ 47" by simp
  have "x - a \<le> \<bar>x - a\<bar>" by simp
  also note err
  also have "1 / 2 ^ 47 \<le> (1::rat)" by simp
  finally have "x \<le> 101" using assms by simp
  then have "\<not> 2 ^ 1024 \<le> x" by simp
  moreover from nonneg have "\<not> x \<le> - (2 ^ 1024)" by simp
  ultimately have "binary64 a = Finite x"
    using False by (simp add: binary64_def Let_def e_def [symmetric] y_def [symmetric] x_def [symmetric])
  with nonneg err show ?thesis by blast
qed

subsection \<open>Digits\<close>

lemma digit_value_digit_char: "d < 10 \<Longrightarrow> digit_value (digit_char d) = Some d"
  by (simp add: digit_value_def digit_char_def Let_def)

lemma digit_char_not_point: "d < 10 \<Longrightarrow> digit_char d \<noteq> CHR ''.''"
  by (simp add: digit_char_def char_of_eq_iff take_bit_eq_mod)

lemma digits_of_no_point: "CHR ''.'' \<notin> set (digits_of n)"
proof (induction n rule: digits_of.induct)
  case (1 n)
  show ?case
  proof (cases "n < 10")
    case True
    with digit_char_not_point [of n] show ?thesis
      by (subst digits_of.simps) auto
  next
    case False
    with "1.IH" digit_char_not_point [of "n mod 10"] show ?thesis
      by (subst digits_of.simps) auto
  qed
qed

lemma nat_of_digits_snoc:
  "d < 10 \<Longrightarrow> nat_of_digits acc (cs @ [digit_char d]) =
     (case nat_of_digits acc cs of None \<Rightarrow> None | Some v \<Rightarrow> Some (10 * v + d))"
  by (induction cs arbitrary: acc) (simp_all add: digit_value_digit_char split: option.split)

lemma nat_of_digits_digits_of: "nat_of_digits 0 (digits_of n) = Some n"
proof (induction n rule: digits_of.induct)
  case (1 n)
  show ?case
  proof (cases "n < 10")
    case True
    then show ?thesis
      by (subst digits_of.simps) (simp add: digit_value_digit_char)
  next
    case False
    have "nat_of_digits 0 (digits_of (n div 10) @ [digit_char (n mod 10)]) = Some (10 * (n div 10) + n mod 10)"
      by (simp add: nat_of_digits_snoc "1.IH" [OF False])
    with False show ?thesis
      by (subst digits_of.simps) simp
  qed
qed

lemma digits_of_nonempty: "digits_of n \<noteq> []"
  by (subst digits_of.simps) simp

lemma digit_char_0: "digit_char 0 = CHR ''0''"
  by (simp add: digit_char_def char_of_eq_iff)

lemma decimal_value_one_place:
  assumes "d < 10"
  shows "decimal_value (digits_of q @ [CHR ''.'', digit_char d]) = Some (of_nat (10 * q + d) / 10)"
    and "fraction_part (digits_of q @ [CHR ''.'', digit_char d]) = [digit_char d]"
proof -
  have ip: "integer_part (digits_of q @ [CHR ''.'', digit_char d]) = digits_of q"
    unfolding integer_part_def
    using digits_of_no_point [of q] by (subst takeWhile_append2) auto
  have "dropWhile (\<lambda>c. c \<noteq> CHR ''.'') (digits_of q @ [CHR ''.'', digit_char d]) = [CHR ''.'', digit_char d]"
    using digits_of_no_point [of q] by (subst dropWhile_append2) auto
  then show fp: "fraction_part (digits_of q @ [CHR ''.'', digit_char d]) = [digit_char d]"
    by (simp add: fraction_part_def)
  from assms show "decimal_value (digits_of q @ [CHR ''.'', digit_char d]) = Some (of_nat (10 * q + d) / 10)"
    unfolding decimal_value_def ip fp
    by (simp add: digits_of_nonempty nat_of_digits_digits_of digit_value_digit_char
        add_divide_distrib)
qed

lemma toFixed_one_place:
  assumes "0 \<le> x" and "x < 10 ^ 21"
  shows "toFixed 1 (Finite x) =
           digits_of (nat \<lfloor>x * 10 + 1 / 2\<rfloor> div 10) @ [CHR ''.'', digit_char (nat \<lfloor>x * 10 + 1 / 2\<rfloor> mod 10)]"
proof -
  define n where "n = nat \<lfloor>x * 10 + 1 / 2\<rfloor>"
  have "toFixed 1 (Finite x) =
      (let m = digits_of n; k = length m;
           m = (if k \<le> 1 then replicate (2 - k) CHR ''0'' @ m else m);
           k = length m
       in take (k - 1) m @ ''.'' @ drop (k - 1) m)"
    using assms by (simp add: toFixed_def Let_def n_def)
  also have "\<dots> = digits_of (n div 10) @ [CHR ''.'', digit_char (n mod 10)]"
  proof (cases "n < 10")
    case True
    then have "digits_of n = [digit_char n]" "digits_of (n div 10) = [digit_char 0]"
      by (subst digits_of.simps, simp)+
    with True show ?thesis
      by (simp add: Let_def digit_char_0)
  next
    case False
    then have "digits_of n = digits_of (n div 10) @ [digit_char (n mod 10)]"
      by (subst digits_of.simps) simp
    with digits_of_nonempty [of "n div 10"] show ?thesis
      by (simp add: Let_def Suc_le_eq)
  qed
  finally show ?thesis by (simp only: n_def)
qed

subsection \<open>The successful run of analyzeSentiment\<close>

lemma analyzeSentiment_returns:
  assumes "\<exists>c\<in>set text. \<not> isWhiteSpace c"
    and "pipeline text = Array (primary # rest)"
  shows "analyzeSentiment (Some pipeline) text =
           Inr \<lparr>label = toUpperCase (label primary), score = score primary,
                sentiment =
                  (if includes_str (toUpperCase (label primary)) (code_units ''POSITIVE'')
                      \<and> num_gt (score primary) (Finite (1 / 2)) then ''positive''
                   else if includes_str (toUpperCase (label primary)) (code_units ''NEGATIVE'')
                      \<and> num_gt (score primary) (Finite (1 / 2)) then ''negative''
                   else ''neutral''),
                confidence = toFixed 1 (num_mul (score primary) (Finite 100))\<rparr>"
  using assms blank_iff [of "text"]
  by (auto simp add: analyzeSentiment_def Let_def)

lemma analyzeSentiment_primary:
  assumes "\<exists>c\<in>set text. \<not> isWhiteSpace c"
    and "pipeline text = Array (primary # rest)"
  shows "analyzeSentiment (Some pipeline) text =
           Inr \<lparr>label = toUpperCase (label primary), score = score primary,
                sentiment =
                  (if contains_ignoring_case (label primary) ''positive''
                      \<and> num_gt (score primary) (Finite (1 / 2)) then ''positive''
                   else if contains_ignoring_case (label primary) ''negative''
                      \<and> num_gt (score primary) (Finite (1 / 2)) then ''negative''
                   else ''neutral''),
                confidence = toFixed 1 (num_mul (score primary) (Finite 100))\<rparr>"
  unfolding analyzeSentiment_returns [of "text" pipeline primary rest, OF assms]
  by (simp only: includes_POSITIVE includes_NEGATIVE)

lemma binary64_75: "binary64 75 = Finite 75"
  apply (simp add: binary64_def floor_log2_def Let_def bit_length.simps)
  apply (simp add: pow2_def)
  apply (simp add: round_half_even_def Let_def)
  done

lemma toFixed_75: "toFixed 1 (num_mul (Finite (3 / 4)) (Finite 100)) = ''75.0''"
  apply (simp add: binary64_75)
  apply (simp add: toFixed_def Let_def)
  apply (simp add: digits_of.simps digit_char_def char_of_eq_iff)
  done

lemma round_to_tenth: "\<bar>of_int \<lfloor>x * 10 + 1 / 2\<rfloor> / 10 - x\<bar> \<le> 1 / (20 :: rat)"
proof -
  define k where "k = \<lfloor>x * 10 + 1 / 2\<rfloor>"
  have "of_int k \<le> x * 10 + 1 / 2" "x * 10 + 1 / 2 < of_int k + 1"
    unfolding k_def by linarith+
  then have "- (1 / 20) \<le> of_int k / 10 - x" "of_int k / 10 - x \<le> 1 / 20"
    by linarith+
  then show ?thesis
    unfolding k_def [symmetric] by (intro abs_leI) linarith+
qed

lemma binary64_0952: "binary64 (952 / 1000) = Finite (535928355657089 / 562949953421312)"
  apply (simp add: binary64_def floor_log2_def Let_def ceiling_def bit_length.simps)
  apply (simp add: pow2_def)
  apply (simp add: round_half_even_def Let_def)
  done

lemma binary64_0952_times_100:
  "num_mul (Finite (535928355657089 / 562949953421312)) (Finite 100) =
     Finite (1674776111428403 / 17592186044416)"
  apply (simp add: binary64_def floor_log2_def Let_def ceiling_def bit_length.simps)
  apply (simp add: pow2_def)
  apply (simp add: round_half_even_def Let_def)
  done

lemma toFixed_952: "toFixed 1 (Finite (1674776111428403 / 17592186044416)) = ''95.2''"
  apply (simp add: toFixed_def Let_def)
  apply (simp add: digits_of.simps digit_char_def char_of_eq_iff)
  done

lemma toFixed_0952: "toFixed 1 (num_mul (binary64 (952 / 1000)) (Finite 100)) = ''95.2''"
  unfolding binary64_0952 binary64_0952_times_100 by (rule toFixed_952)

lemma binary64_three_quarters: "binary64 (3 / 4) = Finite (3 / 4)"
  apply (simp add: binary64_def floor_log2_def Let_def ceiling_def bit_length.simps)
  apply (simp add: pow2_def)
  apply (simp add: round_half_even_def Let_def)
  done

lemma binary64_05225: "binary64 (5225 / 10000) = Finite (588282701325271 / 1125899906842624)"
  apply (simp add: binary64_def floor_log2_def Let_def ceiling_def bit_length.simps)
  apply (simp add: pow2_def)
  apply (simp add: round_half_even_def Let_def)
  done

lemma binary64_05225_times_100:
  "num_mul (Finite (588282701325271 / 1125899906842624)) (Finite 100) = Finite (209 / 4)"
  apply (simp add: binary64_def floor_log2_def Let_def ceiling_def bit_length.simps)
  apply (simp add: pow2_def)
  apply (simp add: round_half_even_def Let_def)
  done

lemma toFixed_5225: "toFixed 1 (Finite (209 / 4)) = ''52.3''"
  apply (simp add: toFixed_def Let_def)
  apply (simp add: digits_of.simps digit_char_def char_of_eq_iff)
  done

section \<open>Properties\<close>

subsection \<open>Logging\<close>

text \<open>
  C7. When no classification has been made (\<open>currentAnalysis\<close> is \<open>null\<close>), the log action
  fails with NoAnalysisAvailable: all it does is show that error, whatever the
  configuration, the browser and the network are, and it hands nothing to \<open>fetch\<close>.
\<close>

theorem logToGoogleSheets_no_analysis:
  assumes "currentAnalysis s = None"
  shows "logToGoogleSheets GOOGLE_SCRIPT_URL env net s =
           s\<lparr>errorMessage_textContent := message NoAnalysisAvailable, errorBox_show := True\<rparr>
         \<and> requests (logToGoogleSheets GOOGLE_SCRIPT_URL env net s) = requests s"
  using assms by (simp add: logToGoogleSheets_def showError_def NoAnalysisAvailable_def)

theorem logToGoogleSheets_no_analysis_witness:
  "currentAnalysis fresh_page = None
   \<and> logToGoogleSheets ''https://script.example/exec'' example_environment Fulfilled fresh_page =
       fresh_page\<lparr>errorMessage_textContent := ''No analysis to log'', errorBox_show := True\<rparr>
   \<and> requests (logToGoogleSheets ''https://script.example/exec'' example_environment Fulfilled
         fresh_page) = []"
proof -
  have none: "currentAnalysis fresh_page = None"
    by (simp add: fresh_page_def)
  have "requests fresh_page = []" "message NoAnalysisAvailable = ''No analysis to log''"
    by (simp_all add: fresh_page_def NoAnalysisAvailable_def)
  with none logToGoogleSheets_no_analysis [OF none, of "''https://script.example/exec''"
      example_environment Fulfilled]
  show ?thesis by simp
qed

text \<open>
  C10. The log action leaves the stored analysis as it is, whether it stops at one of its
  checks, the transmission succeeds or the transmission fails.
\<close>

theorem logToGoogleSheets_keeps_currentAnalysis:
  "currentAnalysis (logToGoogleSheets GOOGLE_SCRIPT_URL env net s) = currentAnalysis s"
  by (simp add: logToGoogleSheets_def showError_def Let_def
      split: option.split fetch_result.split)

text \<open>
  C6. With an analysis stored and the endpoint configured, the log action hands exactly
  one request to \<open>fetch\<close>, and the field \<open>sentiment\<close> of its payload is the label, a space,
  an opening parenthesis, the confidence, a percent sign and a closing parenthesis; for the
  label \<open>POSITIVE\<close> and the confidence \<open>95.2\<close> that is \<open>POSITIVE (95.2%)\<close>.
\<close>

theorem logToGoogleSheets_sentiment_field:
  assumes "currentAnalysis s = Some current"
    and "GOOGLE_SCRIPT_URL \<noteq> []"
    and "GOOGLE_SCRIPT_URL \<noteq> ''YOUR_GOOGLE_APPS_SCRIPT_WEB_APP_URL''"
  shows "\<exists>req. requests (logToGoogleSheets GOOGLE_SCRIPT_URL env net s) = requests s @ [req]
           \<and> log_sentiment (body req) = label current @ '' ('' @ confidence current @ ''%)''
           \<and> (label current = ''POSITIVE'' \<and> confidence current = ''95.2''
                \<longrightarrow> log_sentiment (body req) = ''POSITIVE (95.2%)'')"
  using assms by (cases net) (simp_all add: logToGoogleSheets_def showError_def Let_def)

theorem logToGoogleSheets_sentiment_field_witness:
  "currentAnalysis analysed_page = Some example_analysis
   \<and> ''https://script.example/exec'' \<noteq> []
   \<and> ''https://script.example/exec'' \<noteq> ''YOUR_GOOGLE_APPS_SCRIPT_WEB_APP_URL''
   \<and> label example_analysis = ''POSITIVE'' \<and> confidence example_analysis = ''95.2''
   \<and> (\<exists>req. requests (logToGoogleSheets ''https://script.example/exec'' example_environment
                  (Failed ''Failed to fetch'') analysed_page) = [req]
          \<and> log_sentiment (body req) = ''POSITIVE (95.2%)'')"
proof -
  have stored: "currentAnalysis analysed_page = Some example_analysis"
    by (simp add: analysed_page_def)
  have configured: "''https://script.example/exec'' \<noteq> []"
    "''https://script.example/exec'' \<noteq> ''YOUR_GOOGLE_APPS_SCRIPT_WEB_APP_URL''"
    by simp_all
  have session: "label example_analysis = ''POSITIVE''" "confidence example_analysis = ''95.2''"
    by (simp_all add: example_analysis_def)
  have none_yet: "requests analysed_page = []"
    by (simp add: analysed_page_def fresh_page_def)
  from logToGoogleSheets_sentiment_field [OF stored configured, of example_environment
      "Failed ''Failed to fetch''"]
  obtain req where
    "requests (logToGoogleSheets ''https://script.example/exec'' example_environment
       (Failed ''Failed to fetch'') analysed_page) = requests analysed_page @ [req]"
    and "label example_analysis = ''POSITIVE'' \<and> confidence example_analysis = ''95.2''
           \<longrightarrow> log_sentiment (body req) = ''POSITIVE (95.2%)''"
    by blast
  with session none_yet
  have "requests (logToGoogleSheets ''https://script.example/exec'' example_environment
       (Failed ''Failed to fetch'') analysed_page) = [req]
      \<and> log_sentiment (body req) = ''POSITIVE (95.2%)''"
    by simp
  with stored configured session show ?thesis by blast
qed

subsection \<open>Classification\<close>

text \<open>
  C1, with the rule for \<open>negative\<close> as the code has it. When the pipeline is loaded, the
  text is not blank and the pipeline resolves to a non-empty array, \<open>analyzeSentiment\<close>
  returns, and the sentiment of the result is \<open>positive\<close> iff the first entry's label
  contains "positive" case-insensitively and its score is above 0.5; \<open>negative\<close> iff the
  label contains "negative" but not "positive" case-insensitively and the score is above
  0.5; \<open>neutral\<close> in every other case; and it is one of the three. The comparison with
  0.5 is JavaScript's: a score that is NaN is not above it.
\<close>

theorem analyzeSentiment_sentiment:
  assumes "\<exists>c\<in>set text. \<not> isWhiteSpace c"
    and "pipeline text = Array (primary # rest)"
  shows "\<exists>res. analyzeSentiment (Some pipeline) text = Inr res
           \<and> (sentiment res = ''positive'' \<longleftrightarrow>
                contains_ignoring_case (label primary) ''positive''
                \<and> num_gt (score primary) (Finite (1 / 2)))
           \<and> (sentiment res = ''negative'' \<longleftrightarrow>
                contains_ignoring_case (label primary) ''negative''
                \<and> \<not> contains_ignoring_case (label primary) ''positive''
                \<and> num_gt (score primary) (Finite (1 / 2)))
           \<and> (sentiment res = ''neutral'' \<longleftrightarrow>
                \<not> (num_gt (score primary) (Finite (1 / 2))
                   \<and> (contains_ignoring_case (label primary) ''positive''
                      \<or> contains_ignoring_case (label primary) ''negative'')))
           \<and> (sentiment res = ''positive'' \<or> sentiment res = ''negative''
                \<or> sentiment res = ''neutral'')"
  unfolding analyzeSentiment_primary [of "text" pipeline primary rest, OF assms] by auto

theorem analyzeSentiment_sentiment_witness:
  "(\<exists>c\<in>set ''Terrible experience.''. \<not> isWhiteSpace c)
   \<and> engine_returning (Array [\<lparr>label = ''Negative'', score = Finite (7 / 8)\<rparr>])
        ''Terrible experience.'' = Array [\<lparr>label = ''Negative'', score = Finite (7 / 8)\<rparr>]
   \<and> (\<exists>res. analyzeSentiment
                (Some (engine_returning (Array [\<lparr>label = ''Negative'', score = Finite (7 / 8)\<rparr>])))
                ''Terrible experience.'' = Inr res
           \<and> sentiment res = ''negative'')"
proof -
  let ?primary = "\<lparr>label = ''Negative'', score = Finite (7 / 8)\<rparr>"
  let ?engine = "engine_returning (Array [?primary])"
  have nonblank: "\<exists>c\<in>set ''Terrible experience.''. \<not> isWhiteSpace c"
    by (simp add: isWhiteSpace_def)
  have out: "?engine ''Terrible experience.'' = Array [?primary]"
    by (simp add: engine_returning_def)
  have neg: "contains_ignoring_case ''Negative'' ''negative''"
    by (simp add: same_letter_def toLowerCase_char_def char_of_eq_iff)
  have pos: "\<not> contains_ignoring_case ''Negative'' ''positive''"
    by (simp add: same_letter_def toLowerCase_char_def char_of_eq_iff)
  from analyzeSentiment_sentiment [of "''Terrible experience.''" ?engine ?primary "[]",
      OF nonblank out]
  obtain res where "analyzeSentiment (Some ?engine) ''Terrible experience.'' = Inr res"
    and "sentiment res = ''negative'' \<longleftrightarrow>
           contains_ignoring_case (label ?primary) ''negative''
           \<and> \<not> contains_ignoring_case (label ?primary) ''positive''
           \<and> num_gt (score ?primary) (Finite (1 / 2))"
    by blast
  with neg pos have "analyzeSentiment (Some ?engine) ''Terrible experience.'' = Inr res
      \<and> sentiment res = ''negative''"
    by simp
  with nonblank out show ?thesis by blast
qed

theorem analyzeSentiment_negative_rule_counterexample:
  "contains_ignoring_case ''positive-negative'' ''negative''
   \<and> num_gt (Finite (3 / 4)) (Finite (1 / 2))
   \<and> analyzeSentiment
         (Some (engine_returning (Array [\<lparr>label = ''positive-negative'', score = Finite (3 / 4)\<rparr>])))
         ''Great product!'' =
       Inr \<lparr>label = code_units ''POSITIVE-NEGATIVE'', score = Finite (3 / 4),
            sentiment = ''positive'', confidence = ''75.0''\<rparr>
   \<and> ''positive'' \<noteq> ''negative''"
proof -
  let ?primary = "\<lparr>label = ''positive-negative'', score = Finite (3 / 4)\<rparr>"
  let ?engine = "engine_returning (Array [?primary])"
  have neg: "contains_ignoring_case ''positive-negative'' ''negative''"
    by (simp add: same_letter_def toLowerCase_char_def)
  have pos: "contains_ignoring_case ''positive-negative'' ''positive''"
    by (simp add: same_letter_def toLowerCase_char_def)
  have up: "toUpperCase ''positive-negative'' = code_units ''POSITIVE-NEGATIVE''"
    by (simp add: toUpperCase_def toUpperCase_char_def code_units_def)
  have out: "?engine ''Great product!'' = Array [?primary]"
    by (simp add: engine_returning_def)
  have "analyzeSentiment (Some ?engine) ''Great product!'' =
       Inr \<lparr>label = code_units ''POSITIVE-NEGATIVE'', score = Finite (3 / 4),
            sentiment = ''positive'', confidence = ''75.0''\<rparr>"
    unfolding analyzeSentiment_primary [of "''Great product!''" ?engine ?primary "[]",
        OF nonblank_Great out]
    using pos up toFixed_75 by simp
  with neg show ?thesis by simp
qed

text \<open>
  C4. When the first entry's label contains both "positive" and "negative"
  case-insensitively and its score is above 0.5, the sentiment is \<open>positive\<close>: the test
  for "positive" comes first.
\<close>

theorem analyzeSentiment_positive_first:
  assumes "\<exists>c\<in>set text. \<not> isWhiteSpace c"
    and "pipeline text = Array (primary # rest)"
    and "contains_ignoring_case (label primary) ''positive''"
    and "contains_ignoring_case (label primary) ''negative''"
    and "num_gt (score primary) (Finite (1 / 2))"
  shows "\<exists>res. analyzeSentiment (Some pipeline) text = Inr res \<and> sentiment res = ''positive''"
  unfolding analyzeSentiment_primary [of "text" pipeline primary rest, OF assms(1,2)]
  using assms(3,5) by simp

theorem analyzeSentiment_positive_first_witness:
  "(\<exists>c\<in>set ''Great product!''. \<not> isWhiteSpace c)
   \<and> engine_returning (Array [\<lparr>label = ''NEGATIVE_or_Positive'', score = Finite (5 / 8)\<rparr>])
        ''Great product!'' = Array [\<lparr>label = ''NEGATIVE_or_Positive'', score = Finite (5 / 8)\<rparr>]
   \<and> contains_ignoring_case ''NEGATIVE_or_Positive'' ''positive''
   \<and> contains_ignoring_case ''NEGATIVE_or_Positive'' ''negative''
   \<and> num_gt (Finite (5 / 8)) (Finite (1 / 2))
   \<and> (\<exists>res. analyzeSentiment
                (Some (engine_returning
                   (Array [\<lparr>label = ''NEGATIVE_or_Positive'', score = Finite (5 / 8)\<rparr>])))
                ''Great product!'' = Inr res
           \<and> sentiment res = ''positive'')"
proof -
  let ?primary = "\<lparr>label = ''NEGATIVE_or_Positive'', score = Finite (5 / 8)\<rparr>"
  let ?engine = "engine_returning (Array [?primary])"
  have out: "?engine ''Great product!'' = Array [?primary]"
    by (simp add: engine_returning_def)
  have pos: "contains_ignoring_case ''NEGATIVE_or_Positive'' ''positive''"
    by (simp add: same_letter_def toLowerCase_char_def char_of_eq_iff)
  have neg: "contains_ignoring_case ''NEGATIVE_or_Positive'' ''negative''"
    by (simp add: same_letter_def toLowerCase_char_def char_of_eq_iff)
  have gt: "num_gt (Finite (5 / 8)) (Finite (1 / 2))"
    by simp
  have "\<exists>res. analyzeSentiment (Some ?engine) ''Great product!'' = Inr res
      \<and> sentiment res = ''positive''"
    using pos neg gt
    by (intro analyzeSentiment_positive_first [of "''Great product!''" ?engine ?primary "[]",
          OF nonblank_Great out]) simp_all
  with nonblank_Great out pos neg gt show ?thesis by blast
qed

text \<open>
  C2, with the label as the code stores it. The label stored in the result is the
  upper-cased label of the first entry, and the containment tests that decide the
  sentiment are made on that same stored string; it is the engine's label as produced
  only when that has no lower-case letter.
\<close>

theorem analyzeSentiment_label_upper_case:
  assumes "\<exists>c\<in>set text. \<not> isWhiteSpace c"
    and "pipeline text = Array (primary # rest)"
  shows "\<exists>res. analyzeSentiment (Some pipeline) text = Inr res
           \<and> label res = toUpperCase (label primary)
           \<and> sentiment res =
               (if includes_str (label res) (code_units ''POSITIVE'')
                   \<and> num_gt (score primary) (Finite (1 / 2)) then ''positive''
                else if includes_str (label res) (code_units ''NEGATIVE'')
                   \<and> num_gt (score primary) (Finite (1 / 2)) then ''negative''
                else ''neutral'')
           \<and> (label res = code_units (label primary)
                \<longleftrightarrow> (\<forall>c\<in>set (label primary). \<not> lower_case_letter c))"
  unfolding analyzeSentiment_returns [of "text" pipeline primary rest, OF assms]
  by (simp add: toUpperCase_fixed_iff)

theorem analyzeSentiment_label_upper_case_witness:
  "(\<exists>c\<in>set ''Great product!''. \<not> isWhiteSpace c)
   \<and> engine_returning (Array [\<lparr>label = ''pos'', score = Finite (1 / 4)\<rparr>]) ''Great product!''
       = Array [\<lparr>label = ''pos'', score = Finite (1 / 4)\<rparr>]
   \<and> (\<exists>res. analyzeSentiment
                (Some (engine_returning (Array [\<lparr>label = ''pos'', score = Finite (1 / 4)\<rparr>])))
                ''Great product!'' = Inr res
           \<and> label res = code_units ''POS'' \<and> sentiment res = ''neutral'')"
proof -
  let ?primary = "\<lparr>label = ''pos'', score = Finite (1 / 4)\<rparr>"
  let ?engine = "engine_returning (Array [?primary])"
  have out: "?engine ''Great product!'' = Array [?primary]"
    by (simp add: engine_returning_def)
  have up: "toUpperCase ''pos'' = code_units ''POS''"
    by (simp add: toUpperCase_def toUpperCase_char_def code_units_def)
  have low: "\<not> num_gt (Finite (1 / 4)) (Finite (1 / 2))"
    by simp
  from analyzeSentiment_label_upper_case [of "''Great product!''" ?engine ?primary "[]",
      OF nonblank_Great out]
  obtain res where "analyzeSentiment (Some ?engine) ''Great product!'' = Inr res"
    and "label res = toUpperCase (label ?primary)"
    and "sentiment res =
           (if includes_str (label res) (code_units ''POSITIVE'')
               \<and> num_gt (score ?primary) (Finite (1 / 2)) then ''positive''
            else if includes_str (label res) (code_units ''NEGATIVE'')
               \<and> num_gt (score ?primary) (Finite (1 / 2)) then ''negative''
            else ''neutral'')"
    by blast
  with up low have "analyzeSentiment (Some ?engine) ''Great product!'' = Inr res
      \<and> label res = code_units ''POS'' \<and> sentiment res = ''neutral''"
    by simp
  with nonblank_Great out show ?thesis by blast
qed

theorem analyzeSentiment_label_counterexample:
  "analyzeSentiment
     (Some (engine_returning (Array [\<lparr>label = ''Positive'', score = Finite (3 / 4)\<rparr>])))
     ''Great product!'' =
   Inr \<lparr>label = code_units ''POSITIVE'', score = Finite (3 / 4), sentiment = ''positive'',
        confidence = ''75.0''\<rparr>
   \<and> code_units ''POSITIVE'' \<noteq> code_units ''Positive''"
proof -
  let ?primary = "\<lparr>label = ''Positive'', score = Finite (3 / 4)\<rparr>"
  let ?engine = "engine_returning (Array [?primary])"
  have pos: "contains_ignoring_case ''Positive'' ''positive''"
    by (simp add: same_letter_def toLowerCase_char_def char_of_eq_iff)
  have up: "toUpperCase ''Positive'' = code_units ''POSITIVE''"
    by (simp add: toUpperCase_def toUpperCase_char_def code_units_def)
  have out: "?engine ''Great product!'' = Array [?primary]"
    by (simp add: engine_returning_def)
  have differ: "code_units ''POSITIVE'' \<noteq> code_units ''Positive''"
    by (simp add: code_units_def)
  have "analyzeSentiment (Some ?engine) ''Great product!'' =
       Inr \<lparr>label = code_units ''POSITIVE'', score = Finite (3 / 4), sentiment = ''positive'',
            confidence = ''75.0''\<rparr>"
    unfolding analyzeSentiment_primary [of "''Great product!''" ?engine ?primary "[]",
        OF nonblank_Great out]
    using pos up toFixed_75 by simp
  with differ show ?thesis by blast
qed

text \<open>
  C5, with the product as the code computes it. For a score \<open>s\<close> in \<open>[0, 1]\<close> of the
  first entry, the confidence of the result is a decimal numeral with exactly one digit
  after the point, and its value is the binary64 product \<open>x\<close> of the score and 100
  rounded to the nearest tenth (upwards from the middle); that product is within
  \<open>2 ^ -47\<close> of \<open>s * 100\<close>. For the score \<open>0.952\<close> the confidence is \<open>95.2\<close>.
\<close>

theorem analyzeSentiment_confidence:
  assumes "\<exists>c\<in>set text. \<not> isWhiteSpace c"
    and "pipeline text = Array (primary # rest)"
    and "score primary = Finite s" and "0 \<le> s" and "s \<le> 1"
  shows "(\<exists>res x. analyzeSentiment (Some pipeline) text = Inr res
            \<and> num_mul (Finite s) (Finite 100) = Finite x
            \<and> \<bar>x - s * 100\<bar> \<le> 1 / 2 ^ 47
            \<and> decimal_value (confidence res) = Some (of_int \<lfloor>x * 10 + 1 / 2\<rfloor> / 10)
            \<and> length (fraction_part (confidence res)) = 1
            \<and> \<bar>of_int \<lfloor>x * 10 + 1 / 2\<rfloor> / 10 - x\<bar> \<le> 1 / 20)
         \<and> (\<exists>res. analyzeSentiment
                 (Some (engine_returning
                    (Array [\<lparr>label = ''POSITIVE'', score = binary64 (952 / 1000)\<rparr>])))
                 ''Great product!'' = Inr res
               \<and> confidence res = ''95.2'')"
proof
  from assms(4,5) have "0 \<le> s * 100" "s * 100 \<le> 100" by simp_all
  then obtain x where x: "binary64 (s * 100) = Finite x" "0 \<le> x" "\<bar>x - s * 100\<bar> \<le> 1 / 2 ^ 47"
    using binary64_small [of "s * 100"] by blast
  define n where "n = nat \<lfloor>x * 10 + 1 / 2\<rfloor>"
  from x(2) have n: "of_nat n = (of_int \<lfloor>x * 10 + 1 / 2\<rfloor> :: rat)"
    by (simp add: n_def)
  have "x - s * 100 \<le> \<bar>x - s * 100\<bar>" by simp
  also note x(3)
  also have "1 / 2 ^ 47 \<le> (1::rat)" by simp
  finally have "x \<le> 101" using assms(5) by simp
  then have "x < 10 ^ 21" by simp
  with x(2) have fixed: "toFixed 1 (Finite x) = digits_of (n div 10) @ [CHR ''.'', digit_char (n mod 10)]"
    unfolding n_def by (rule toFixed_one_place)
  have "decimal_value (toFixed 1 (Finite x)) = Some (of_nat (10 * (n div 10) + n mod 10) / 10)"
    and places: "fraction_part (toFixed 1 (Finite x)) = [digit_char (n mod 10)]"
    unfolding fixed by (rule decimal_value_one_place, simp)+
  then have val: "decimal_value (toFixed 1 (Finite x)) = Some (of_int \<lfloor>x * 10 + 1 / 2\<rfloor> / 10)"
    by (simp add: n)
  define res where "res =
      \<lparr>label = toUpperCase (label primary), score = score primary,
       sentiment =
         (if contains_ignoring_case (label primary) ''positive''
             \<and> num_gt (score primary) (Finite (1 / 2)) then ''positive''
          else if contains_ignoring_case (label primary) ''negative''
             \<and> num_gt (score primary) (Finite (1 / 2)) then ''negative''
          else ''neutral''),
       confidence = toFixed 1 (Finite x)\<rparr>"
  have returned: "analyzeSentiment (Some pipeline) text = Inr res"
    unfolding analyzeSentiment_primary [of "text" pipeline primary rest, OF assms(1,2)] res_def
    by (simp add: assms(3) x(1))
  have product: "num_mul (Finite s) (Finite 100) = Finite x"
    by (simp add: x(1))
  have conf: "confidence res = toFixed 1 (Finite x)"
    by (simp add: res_def)
  have "decimal_value (confidence res) = Some (of_int \<lfloor>x * 10 + 1 / 2\<rfloor> / 10)"
    and "length (fraction_part (confidence res)) = 1"
    unfolding conf by (simp_all only: val places list.size)
  with returned product x(3) round_to_tenth [of x]
  show "\<exists>res x. analyzeSentiment (Some pipeline) text = Inr res
            \<and> num_mul (Finite s) (Finite 100) = Finite x
            \<and> \<bar>x - s * 100\<bar> \<le> 1 / 2 ^ 47
            \<and> decimal_value (confidence res) = Some (of_int \<lfloor>x * 10 + 1 / 2\<rfloor> / 10)
            \<and> length (fraction_part (confidence res)) = 1
            \<and> \<bar>of_int \<lfloor>x * 10 + 1 / 2\<rfloor> / 10 - x\<bar> \<le> 1 / 20"
    by blast
next
  let ?primary = "\<lparr>label = ''POSITIVE'', score = binary64 (952 / 1000)\<rparr>"
  let ?engine = "engine_returning (Array [?primary])"
  have out: "?engine ''Great product!'' = Array [?primary]"
    by (simp add: engine_returning_def)
  show "\<exists>res. analyzeSentiment (Some ?engine) ''Great product!'' = Inr res
      \<and> confidence res = ''95.2''"
    unfolding analyzeSentiment_primary [of "''Great product!''" ?engine ?primary "[]",
        OF nonblank_Great out]
    by (intro exI conjI, rule refl)
      (simp only: SentimentResult.select_convs RawClassification.select_convs toFixed_0952)
qed

theorem analyzeSentiment_confidence_witness:
  "(\<exists>c\<in>set ''Great product!''. \<not> isWhiteSpace c)
   \<and> engine_returning (Array [\<lparr>label = ''POSITIVE'', score = Finite (3 / 4)\<rparr>]) ''Great product!''
       = Array [\<lparr>label = ''POSITIVE'', score = Finite (3 / 4)\<rparr>]
   \<and> (0::rat) \<le> 3 / 4 \<and> (3 / 4 :: rat) \<le> 1
   \<and> (\<exists>res. analyzeSentiment
                (Some (engine_returning (Array [\<lparr>label = ''POSITIVE'', score = Finite (3 / 4)\<rparr>])))
                ''Great product!'' = Inr res
           \<and> decimal_value (confidence res) = Some 75
           \<and> length (fraction_part (confidence res)) = 1)"
proof -
  let ?primary = "\<lparr>label = ''POSITIVE'', score = Finite (3 / 4)\<rparr>"
  let ?engine = "engine_returning (Array [?primary])"
  have out: "?engine ''Great product!'' = Array [?primary]"
    by (simp add: engine_returning_def)
  have sc: "score ?primary = Finite (3 / 4)"
    by simp
  have range: "(0::rat) \<le> 3 / 4" "(3 / 4 :: rat) \<le> 1"
    by simp_all
  have product: "num_mul (Finite (3 / 4)) (Finite 100) = Finite 75"
    by (simp add: binary64_75)
  from analyzeSentiment_confidence [of "''Great product!''" ?engine ?primary "[]" "3 / 4",
      OF nonblank_Great out sc range]
  obtain res x where "analyzeSentiment (Some ?engine) ''Great product!'' = Inr res"
    and "num_mul (Finite (3 / 4)) (Finite 100) = Finite x"
    and "decimal_value (confidence res) = Some (of_int \<lfloor>x * 10 + 1 / 2\<rfloor> / 10)"
    and "length (fraction_part (confidence res)) = 1"
    by blast
  with product have "analyzeSentiment (Some ?engine) ''Great product!'' = Inr res
      \<and> decimal_value (confidence res) = Some 75
      \<and> length (fraction_part (confidence res)) = 1"
    by simp
  with nonblank_Great out range show ?thesis by blast
qed

text \<open>
  The score \<open>0.5225\<close> (its binary64 value, a little below 0.5225): the product is rounded
  to 52.25 before it is formatted, and the confidence is \<open>52.3\<close>, which is more than
  0.05 away from \<open>s * 100\<close>, while 52.2 is not.
\<close>

theorem analyzeSentiment_confidence_counterexample:
  "binary64 (5225 / 10000) = Finite (588282701325271 / 1125899906842624)
   \<and> (0::rat) \<le> 588282701325271 / 1125899906842624
   \<and> (588282701325271 / 1125899906842624 :: rat) \<le> 1
   \<and> analyzeSentiment
         (Some (engine_returning
            (Array [\<lparr>label = ''POSITIVE'',
                     score = Finite (588282701325271 / 1125899906842624)\<rparr>])))
         ''Great product!'' =
       Inr \<lparr>label = code_units ''POSITIVE'',
            score = Finite (588282701325271 / 1125899906842624),
            sentiment = ''positive'', confidence = ''52.3''\<rparr>
   \<and> decimal_value ''52.3'' = Some (523 / 10)
   \<and> (1 / 20 :: rat) < \<bar>523 / 10 - 588282701325271 / 1125899906842624 * 100\<bar>
   \<and> \<bar>522 / 10 - 588282701325271 / 1125899906842624 * 100\<bar> < (1 / 20 :: rat)"
proof -
  let ?primary = "\<lparr>label = ''POSITIVE'',
      score = Finite (588282701325271 / 1125899906842624)\<rparr>"
  let ?engine = "engine_returning (Array [?primary])"
  have pos: "contains_ignoring_case ''POSITIVE'' ''positive''"
    by (simp add: same_letter_def toLowerCase_char_def char_of_eq_iff)
  have up: "toUpperCase ''POSITIVE'' = code_units ''POSITIVE''"
    by (simp add: toUpperCase_def toUpperCase_char_def code_units_def)
  have out: "?engine ''Great product!'' = Array [?primary]"
    by (simp add: engine_returning_def)
  have conf: "toFixed 1 (num_mul (Finite (588282701325271 / 1125899906842624)) (Finite 100))
      = ''52.3''"
    unfolding binary64_05225_times_100 by (rule toFixed_5225)
  have gt: "num_gt (Finite (588282701325271 / 1125899906842624)) (Finite (1 / 2))"
    by simp
  have result: "analyzeSentiment (Some ?engine) ''Great product!'' =
       Inr \<lparr>label = code_units ''POSITIVE'',
            score = Finite (588282701325271 / 1125899906842624),
            sentiment = ''positive'', confidence = ''52.3''\<rparr>"
    unfolding analyzeSentiment_primary [of "''Great product!''" ?engine ?primary "[]",
        OF nonblank_Great out]
    by (simp only: RawClassification.select_convs pos up gt conf simp_thms if_True)
  have parsed: "decimal_value ''52.3'' = Some (523 / 10)"
    by (simp add: decimal_value_def integer_part_def fraction_part_def digit_value_def)
  have far: "(1 / 20 :: rat) < \<bar>523 / 10 - 588282701325271 / 1125899906842624 * 100\<bar>"
    and near: "\<bar>522 / 10 - 588282701325271 / 1125899906842624 * 100\<bar> < (1 / 20 :: rat)"
    by simp_all
  have range: "(0::rat) \<le> 588282701325271 / 1125899906842624"
    "(588282701325271 / 1125899906842624 :: rat) \<le> 1"
    by simp_all
  from binary64_05225 range result parsed far near show ?thesis by blast
qed

subsection \<open>Failures of analyzeSentiment\<close>

text \<open>
  C3, with the two checks in the code's order. For a text that is empty after trimming,
  \<open>analyzeSentiment\<close> fails with InvalidInput when the pipeline is loaded, whatever the
  pipeline would return; when the pipeline is not loaded it fails with EngineNotReady, the
  check made first.
\<close>

theorem analyzeSentiment_blank_text:
  assumes "\<forall>c\<in>set text. isWhiteSpace c"
  shows "analyzeSentiment sentimentPipeline text =
           (if sentimentPipeline = None then Inl EngineNotReady else Inl InvalidInput)"
  using assms blank_iff [of "text"]
  by (simp add: analyzeSentiment_def EngineNotReady_def InvalidInput_def split: option.split)

theorem analyzeSentiment_blank_text_witness:
  "isWhiteSpace CHR '' '' \<and> isWhiteSpace (CHR 0x09) \<and> isWhiteSpace (CHR 0xA0)
   \<and> analyzeSentiment (Some (engine_returning NotArray)) [CHR '' '', CHR 0x09, CHR 0xA0]
       = Inl InvalidInput
   \<and> analyzeSentiment None [CHR '' '', CHR 0x09, CHR 0xA0] = Inl EngineNotReady"
proof -
  have ws: "isWhiteSpace CHR '' ''" "isWhiteSpace (CHR 0x09)" "isWhiteSpace (CHR 0xA0)"
    by (simp_all add: isWhiteSpace_def)
  then have blank: "\<forall>c\<in>set [CHR '' '', CHR 0x09, CHR 0xA0]. isWhiteSpace c"
    by simp
  from ws analyzeSentiment_blank_text [OF blank, of "Some (engine_returning NotArray)"]
    analyzeSentiment_blank_text [OF blank, of None]
  show ?thesis by simp
qed

theorem analyzeSentiment_empty_text_not_loaded:
  "analyzeSentiment None [] = Inl EngineNotReady \<and> EngineNotReady \<noteq> InvalidInput"
  by (simp add: analyzeSentiment_def EngineNotReady_def InvalidInput_def)

text \<open>
  C8. When the pipeline is invoked (it is loaded and the text is not blank) and resolves
  to a value that is not an array, or to the empty array, \<open>analyzeSentiment\<close> fails with
  InvalidEngineOutput.
\<close>

theorem analyzeSentiment_invalid_output:
  assumes "\<exists>c\<in>set text. \<not> isWhiteSpace c"
    and "pipeline text = NotArray \<or> pipeline text = Array []"
  shows "analyzeSentiment (Some pipeline) text = Inl InvalidEngineOutput"
  using assms blank_iff [of "text"]
  by (auto simp add: analyzeSentiment_def InvalidEngineOutput_def)

theorem analyzeSentiment_invalid_output_witness:
  "(\<exists>c\<in>set ''Great product!''. \<not> isWhiteSpace c)
   \<and> engine_returning (Array []) ''Great product!'' = Array []
   \<and> analyzeSentiment (Some (engine_returning (Array []))) ''Great product!'' = Inl InvalidEngineOutput
   \<and> engine_returning NotArray ''Great product!'' = NotArray
   \<and> analyzeSentiment (Some (engine_returning NotArray)) ''Great product!'' = Inl InvalidEngineOutput"
proof -
  have empty: "engine_returning (Array []) ''Great product!'' = Array []"
    and no_array: "engine_returning NotArray ''Great product!'' = NotArray"
    by (simp_all add: engine_returning_def)
  have "analyzeSentiment (Some (engine_returning (Array []))) ''Great product!'' = Inl InvalidEngineOutput"
    using empty
    by (intro analyzeSentiment_invalid_output [of "''Great product!''" "engine_returning (Array [])"]
        nonblank_Great disjI2)
  moreover
  have "analyzeSentiment (Some (engine_returning NotArray)) ''Great product!'' = Inl InvalidEngineOutput"
    using no_array
    by (intro analyzeSentiment_invalid_output [of "''Great product!''" "engine_returning NotArray"]
        nonblank_Great disjI1)
  ultimately show ?thesis
    using nonblank_Great empty no_array by blast
qed

subsection \<open>Sampling\<close>

text \<open>
  C9. With a single review loaded, \<open>getRandomReview\<close> returns it for every draw of
  \<open>Math.random\<close> (a binary64 value in \<open>[0, 1)\<close>); with no review loaded it fails with
  EmptyDataset.
\<close>

theorem getRandomReview_single_or_empty:
  assumes "0 \<le> r" and "r < 1" and "binary64 r = Finite r"
  shows "getRandomReview [x] (Finite r) = Inr (Some x)
         \<and> getRandomReview [] random = Inl EmptyDataset"
proof -
  from assms have "\<lfloor>r\<rfloor> = 0" by (simp add: floor_eq_iff)
  with assms show ?thesis
    by (simp add: getRandomReview_def EmptyDataset_def)
qed

theorem getRandomReview_single_or_empty_witness:
  "(0::rat) \<le> 3 / 4 \<and> (3 / 4 :: rat) < 1 \<and> binary64 (3 / 4) = Finite (3 / 4)
   \<and> getRandomReview [''Great product!''] (Finite (3 / 4)) = Inr (Some ''Great product!'')
   \<and> getRandomReview [] NaN = Inl EmptyDataset"
proof -
  have range: "(0::rat) \<le> 3 / 4" "(3 / 4 :: rat) < 1"
    by simp_all
  from range binary64_three_quarters
    getRandomReview_single_or_empty [OF range binary64_three_quarters, of "''Great product!''" NaN]
  show ?thesis by blast
qed

end
